theory Spec2Isabelle
  imports Complex_Main
begin

section \<open>Frontend API client (features/incidents/api/incidents.api.ts)\<close>

subsection \<open>JavaScript values the client handles\<close>

text \<open>
  A JavaScript number as far as the client tests it: \<open>NaN\<close>, the two infinities, or a
  finite value read as a rational (so \<open>-0\<close> and \<open>0\<close> are the same value, as they are for
  \<open>!==\<close> and for truthiness).
\<close>

datatype number = NaN | Infinity | NegInfinity | Finite rat

text \<open>What \<open>response.json()\<close> resolves to: a JSON value. An object is the list of its
  properties in the order of the JSON text; a later duplicate key overrides an earlier one.\<close>

datatype json =
    JNull
  | JBool bool
  | JNum number
  | JStr string
  | JArr "json list"
  | JObj "(string \<times> json) list"

text \<open>\<open>Array.isArray(v)\<close>.\<close>

fun isArray :: "json \<Rightarrow> bool" where
  "isArray (JArr xs) = True"
| "isArray v = False"

text \<open>JavaScript truthiness of a parsed JSON value (the left operand of \<open>data && ...\<close>).\<close>

fun truthy :: "json \<Rightarrow> bool" where
  "truthy JNull = False"
| "truthy (JBool b) = b"
| "truthy (JNum n) = (case n of NaN \<Rightarrow> False | Finite r \<Rightarrow> r \<noteq> 0 | _ \<Rightarrow> True)"
| "truthy (JStr s) = (s \<noteq> [])"
| "truthy (JArr xs) = True"
| "truthy (JObj kvs) = True"

text \<open>\<open>(data as any).results\<close> on a truthy value: the own property of an object, and
  \<open>undefined\<close> (here \<open>None\<close>) on a primitive or an array.\<close>

fun results_of :: "json \<Rightarrow> json option" where
  "results_of (JObj kvs) = map_of (rev kvs) ''results''"
| "results_of v = None"

text \<open>Decimal rendering of a status code inside the template literal
  \<open>`Request failed with ${response.status}`\<close>.\<close>

fun nat_to_string :: "nat \<Rightarrow> string" where
  "nat_to_string n =
     (if n < 10 then [''0123456789'' ! n]
      else nat_to_string (n div 10) @ [''0123456789'' ! (n mod 10)])"

declare nat_to_string.simps [simp del]

subsection \<open>Responses and errors\<close>

text \<open>The part of a fetch \<open>Response\<close> the client reads: \<open>ok\<close>, \<open>status\<close>, what
  \<open>text()\<close> resolves to, and what \<open>json()\<close> resolves to (\<open>None\<close> when the body is not
  valid JSON and \<open>json()\<close> rejects with a \<open>SyntaxError\<close>).\<close>

record response =
  ok :: bool
  status_code :: nat
  body_text :: string
  body_json :: "json option"

text \<open>What the client can throw: \<open>new Error(message)\<close> from \<open>parseJson\<close>, the
  \<open>SyntaxError\<close> of \<open>response.json()\<close>, and the \<open>TypeError\<close> of a rejected \<open>fetch\<close>.\<close>

datatype js_error = Error string | SyntaxError | TypeError

record request =
  url :: string
  http_method :: string
  headers :: "(string \<times> string) list"
  body :: "string option"

definition parseJson :: "response \<Rightarrow> js_error + json" where
  "parseJson response =
     (if \<not> ok response then
        Inl (Error (if body_text response \<noteq> [] then body_text response
                    else ''Request failed with '' @ nat_to_string (status_code response)))
      else (case body_json response of
              None \<Rightarrow> Inl SyntaxError
            | Some data \<Rightarrow> Inr data))"

subsection \<open>Query building\<close>

text \<open>An optional property that may hold \<open>undefined\<close>, \<open>null\<close> or a value.\<close>

datatype 'a optional = Undefined | Null | Val 'a

text \<open>\<open>IncidentListParams\<close>. A string property is \<open>None\<close> when it is absent
  (\<open>undefined\<close>) and is truthy when it is present and not the empty string;
  \<open>min_severity\<close> is tested against \<open>undefined\<close>, \<open>null\<close> and \<open>0\<close> one by one, so it
  keeps all three.\<close>

record IncidentListParams =
  status :: "string option"
  attack_type :: "string option"
  min_severity :: "number optional"
  q :: "string option"
  ordering :: "string option"

text \<open>\<open>URLSearchParams\<close>: an ordered list of name/value pairs. \<open>set\<close> overwrites the
  first pair of that name and drops the others of that name, or appends a new pair.\<close>

type_synonym URLSearchParams = "(string \<times> string) list"

fun search_set :: "URLSearchParams \<Rightarrow> string \<Rightarrow> string \<Rightarrow> URLSearchParams" where
  "search_set [] k v = [(k, v)]"
| "search_set ((k', v') # rest) k v =
     (if k' = k then (k, v) # filter (\<lambda>p. fst p \<noteq> k) rest
      else (k', v') # search_set rest k v)"

text \<open>\<open>URLSearchParams.has(name)\<close> and \<open>URLSearchParams.get(name)\<close> (the first value
  of that name, \<open>null\<close> when there is none).\<close>

definition search_has :: "URLSearchParams \<Rightarrow> string \<Rightarrow> bool" where
  "search_has search k = (k \<in> fst ` set search)"

definition search_get :: "URLSearchParams \<Rightarrow> string \<Rightarrow> string option" where
  "search_get search k = map_of search k"

text \<open>Truthiness of an optional string property.\<close>

fun truthy_str :: "string option \<Rightarrow> bool" where
  "truthy_str None = False"
| "truthy_str (Some s) = (s \<noteq> [])"

text \<open>\<open>URLSearchParams.toString()\<close>: \<open>name=value\<close> pairs joined by \<open>&\<close>, each side
  passed through the form-urlencoded serializer \<open>enc\<close> of the platform.\<close>

fun search_toString :: "(string \<Rightarrow> string) \<Rightarrow> URLSearchParams \<Rightarrow> string" where
  "search_toString enc [] = []"
| "search_toString enc [(k, v)] = enc k @ ''='' @ enc v"
| "search_toString enc ((k, v) # rest) = enc k @ ''='' @ enc v @ ''&'' @ search_toString enc rest"

text \<open>The value of \<open>search\<close> when \<open>buildQuery\<close> reaches its final \<open>return\<close>, given the
  platform's \<open>String(number)\<close> as \<open>num_str\<close>. The five \<open>if\<close> statements run in the
  source's order.\<close>

definition buildSearch :: "(number \<Rightarrow> string) \<Rightarrow> IncidentListParams \<Rightarrow> URLSearchParams" where
  "buildSearch num_str params =
     (let search = [];
          search = (case status params of
                      Some s \<Rightarrow> if s \<noteq> [] then search_set search ''status'' s else search
                    | None \<Rightarrow> search);
          search = (case attack_type params of
                      Some s \<Rightarrow> if s \<noteq> [] then search_set search ''attack_type'' s else search
                    | None \<Rightarrow> search);
          search = (case min_severity params of
                      Undefined \<Rightarrow> search
                    | Null \<Rightarrow> search
                    | Val n \<Rightarrow> if n \<noteq> Finite 0
                               then search_set search ''min_severity'' (num_str n) else search);
          search = (case q params of
                      Some s \<Rightarrow> if s \<noteq> [] then search_set search ''q'' s else search
                    | None \<Rightarrow> search);
          search = (case ordering params of
                      Some s \<Rightarrow> if s \<noteq> [] then search_set search ''ordering'' s else search
                    | None \<Rightarrow> search)
      in search)"

definition buildQuery ::
  "(string \<Rightarrow> string) \<Rightarrow> (number \<Rightarrow> string) \<Rightarrow> IncidentListParams option \<Rightarrow> string" where
  "buildQuery enc num_str params =
     (case params of
        None \<Rightarrow> search_toString enc []
      | Some p \<Rightarrow> search_toString enc (buildSearch num_str p))"

subsection \<open>Listing incidents\<close>

text \<open>\<open>listIncidents\<close>, given the imported constant \<open>API_BASE_URL\<close>, the platform's
  \<open>fetch\<close> (which either rejects or resolves to a response) and the two platform
  functions of \<open>buildQuery\<close>.\<close>

definition listIncidents ::
  "string \<Rightarrow> (request \<Rightarrow> js_error + response) \<Rightarrow> (string \<Rightarrow> string) \<Rightarrow> (number \<Rightarrow> string)
     \<Rightarrow> IncidentListParams option \<Rightarrow> js_error + json" where
  "listIncidents API_BASE_URL fetch enc num_str params =
     (let query = buildQuery enc num_str params;
          url = API_BASE_URL @ ''/api/incidents/'' @ (if query \<noteq> [] then ''?'' @ query else [])
      in case fetch \<lparr>url = url, http_method = ''GET'',
                       headers = [(''Accept'', ''application/json'')], body = None\<rparr> of
           Inl e \<Rightarrow> Inl e
         | Inr response \<Rightarrow>
             (case parseJson response of
                Inl e \<Rightarrow> Inl e
              | Inr data \<Rightarrow>
                  if isArray data then Inr data
                  else (case (if truthy data then results_of data else None) of
                          Some r \<Rightarrow> if isArray r then Inr r else Inr (JArr [])
                        | None \<Rightarrow> Inr (JArr []))))"

section \<open>Firewall parser: the year of a syslog timestamp (specification section 4.2)\<close>

text \<open>
  Modelled from the spec: the firewall (UFW) parser is not among the sources; only the
  ETL README's note on it is ("current year is injected and adjusted for year rollover;
  timestamps assume local timezone then convert to UTC"). A syslog timestamp is a month,
  a day and a time of day, without a year; "now" and the resolved timestamp are
  wall-clock times of the same local zone. The conversion to UTC that follows in the
  parser is not part of this model.
\<close>

record syslog_time =
  month :: nat
  day :: nat
  hour :: nat
  minute :: nat
  second :: nat

record datetime = syslog_time +
  year :: int

definition is_leap :: "int \<Rightarrow> bool" where
  "is_leap y = (y mod 4 = 0 \<and> (y mod 100 \<noteq> 0 \<or> y mod 400 = 0))"

text \<open>Days from 1 January of year 1 to 1 January of year \<open>y\<close> (proleptic Gregorian).\<close>

definition days_before_year :: "int \<Rightarrow> int" where
  "days_before_year y = 365 * (y - 1) + (y - 1) div 4 - (y - 1) div 100 + (y - 1) div 400"

text \<open>Days of the year that precede the first day of month \<open>m\<close> (1 to 12; 0 for
  anything else).\<close>

definition days_before_month :: "bool \<Rightarrow> nat \<Rightarrow> int" where
  "days_before_month leap m =
     (if 1 \<le> m \<and> m \<le> 12
      then int ([0, 31, 59, 90, 120, 151, 181, 212, 243, 273, 304, 334] ! (m - 1))
             + (if leap \<and> 2 < m then 1 else 0)
      else 0)"

text \<open>Seconds from the start of year 1 to the given wall-clock time.\<close>

definition to_seconds :: "datetime \<Rightarrow> int" where
  "to_seconds t =
     ((days_before_year (year t) + days_before_month (is_leap (year t)) (month t)
        + int (day t) - 1) * 24 + int (hour t)) * 3600
       + int (minute t) * 60 + int (second t)"

definition with_year :: "int \<Rightarrow> syslog_time \<Rightarrow> datetime" where
  "with_year y s =
     \<lparr>month = month s, day = day s, hour = hour s, minute = minute s, second = second s,
      year = y\<rparr>"

text \<open>
  Modelled from the spec: the year rule of section 4.2, which stands in for the missing
  parser. The current year is injected; when the result is more than \<open>tolerance\<close>
  seconds in the future of \<open>now\<close>, the year is decremented.
\<close>

definition resolve_year :: "int \<Rightarrow> datetime \<Rightarrow> syslog_time \<Rightarrow> datetime" where
  "resolve_year tolerance now s =
     (let injected = with_year (year now) s
      in if to_seconds injected > to_seconds now + tolerance
         then with_year (year now - 1) s
         else injected)"

section \<open>Properties of the frontend API client\<close>

subsection \<open>buildQuery\<close>

text \<open>Every \<open>set\<close> of \<open>buildQuery\<close> uses a fresh name, so \<open>search\<close> ends as the included
  pairs in the order of the five tests.\<close>

lemma buildSearch_eq:
  "buildSearch num_str p =
     (if truthy_str (status p) then [(''status'', the (status p))] else [])
   @ (if truthy_str (attack_type p) then [(''attack_type'', the (attack_type p))] else [])
   @ (case min_severity p of
        Val n \<Rightarrow> if n \<noteq> Finite 0 then [(''min_severity'', num_str n)] else []
      | _ \<Rightarrow> [])
   @ (if truthy_str (q p) then [(''q'', the (q p))] else [])
   @ (if truthy_str (ordering p) then [(''ordering'', the (ordering p))] else [])"
  by (cases "status p"; cases "attack_type p"; cases "min_severity p"; cases "q p";
      cases "ordering p")
     (simp_all add: buildSearch_def)

text \<open>
  Claim C10. The string \<open>buildQuery\<close> returns is the serialization of exactly these
  pairs, in this order: \<open>status\<close>, \<open>attack_type\<close>, \<open>min_severity\<close>, \<open>q\<close>,
  \<open>ordering\<close>, where each of the four string parameters is there if and only if it is
  truthy (with its own value) and \<open>min_severity\<close> is left out whenever it is
  \<open>undefined\<close>, \<open>null\<close> or \<open>0\<close>. So a filter of \<open>0\<close> (and of \<open>null\<close>) gives the same
  query string as no severity filter, and without \<open>params\<close> the query is empty.
\<close>

theorem buildQuery_params:
  "buildQuery enc num_str (Some p) =
     search_toString enc
       ((case status p of
           Some s \<Rightarrow> if s \<noteq> [] then [(''status'', s)] else []
         | None \<Rightarrow> [])
        @ (case attack_type p of
             Some s \<Rightarrow> if s \<noteq> [] then [(''attack_type'', s)] else []
           | None \<Rightarrow> [])
        @ (case min_severity p of
             Undefined \<Rightarrow> []
           | Null \<Rightarrow> []
           | Val n \<Rightarrow> if n \<noteq> Finite 0 then [(''min_severity'', num_str n)] else [])
        @ (case q p of
             Some s \<Rightarrow> if s \<noteq> [] then [(''q'', s)] else []
           | None \<Rightarrow> [])
        @ (case ordering p of
             Some s \<Rightarrow> if s \<noteq> [] then [(''ordering'', s)] else []
           | None \<Rightarrow> []))
   \<and> (min_severity p \<in> {Undefined, Null, Val (Finite 0)}
      \<longrightarrow> \<not> search_has (buildSearch num_str p) ''min_severity'')
   \<and> buildQuery enc num_str (Some (p\<lparr>min_severity := Val (Finite 0)\<rparr>))
       = buildQuery enc num_str (Some (p\<lparr>min_severity := Undefined\<rparr>))
   \<and> buildQuery enc num_str (Some (p\<lparr>min_severity := Null\<rparr>))
       = buildQuery enc num_str (Some (p\<lparr>min_severity := Undefined\<rparr>))
   \<and> search_has (buildSearch num_str p) ''status'' = truthy_str (status p)
   \<and> search_has (buildSearch num_str p) ''attack_type'' = truthy_str (attack_type p)
   \<and> search_has (buildSearch num_str p) ''q'' = truthy_str (q p)
   \<and> search_has (buildSearch num_str p) ''ordering'' = truthy_str (ordering p)
   \<and> (truthy_str (status p)
        \<longrightarrow> search_get (buildSearch num_str p) ''status'' = status p)
   \<and> (truthy_str (attack_type p)
        \<longrightarrow> search_get (buildSearch num_str p) ''attack_type'' = attack_type p)
   \<and> (truthy_str (q p) \<longrightarrow> search_get (buildSearch num_str p) ''q'' = q p)
   \<and> (truthy_str (ordering p)
        \<longrightarrow> search_get (buildSearch num_str p) ''ordering'' = ordering p)
   \<and> buildQuery enc num_str None = []"
proof (intro conjI)
  show "buildQuery enc num_str (Some p) =
     search_toString enc
       ((case status p of
           Some s \<Rightarrow> if s \<noteq> [] then [(''status'', s)] else []
         | None \<Rightarrow> [])
        @ (case attack_type p of
             Some s \<Rightarrow> if s \<noteq> [] then [(''attack_type'', s)] else []
           | None \<Rightarrow> [])
        @ (case min_severity p of
             Undefined \<Rightarrow> []
           | Null \<Rightarrow> []
           | Val n \<Rightarrow> if n \<noteq> Finite 0 then [(''min_severity'', num_str n)] else [])
        @ (case q p of
             Some s \<Rightarrow> if s \<noteq> [] then [(''q'', s)] else []
           | None \<Rightarrow> [])
        @ (case ordering p of
             Some s \<Rightarrow> if s \<noteq> [] then [(''ordering'', s)] else []
           | None \<Rightarrow> []))"
    by (cases "status p"; cases "attack_type p"; cases "min_severity p"; cases "q p";
        cases "ordering p")
       (simp_all add: buildQuery_def buildSearch_eq)
  show "min_severity p \<in> {Undefined, Null, Val (Finite 0)}
      \<longrightarrow> \<not> search_has (buildSearch num_str p) ''min_severity''"
    by (auto simp: buildSearch_eq search_has_def)
  show "buildQuery enc num_str (Some (p\<lparr>min_severity := Val (Finite 0)\<rparr>))
       = buildQuery enc num_str (Some (p\<lparr>min_severity := Undefined\<rparr>))"
    by (simp add: buildQuery_def buildSearch_eq)
  show "buildQuery enc num_str (Some (p\<lparr>min_severity := Null\<rparr>))
       = buildQuery enc num_str (Some (p\<lparr>min_severity := Undefined\<rparr>))"
    by (simp add: buildQuery_def buildSearch_eq)
  show "search_has (buildSearch num_str p) ''status'' = truthy_str (status p)"
    by (cases "min_severity p") (auto simp: buildSearch_eq search_has_def)
  show "search_has (buildSearch num_str p) ''attack_type'' = truthy_str (attack_type p)"
    by (cases "min_severity p") (auto simp: buildSearch_eq search_has_def)
  show "search_has (buildSearch num_str p) ''q'' = truthy_str (q p)"
    by (cases "min_severity p") (auto simp: buildSearch_eq search_has_def)
  show "search_has (buildSearch num_str p) ''ordering'' = truthy_str (ordering p)"
    by (cases "min_severity p") (auto simp: buildSearch_eq search_has_def)
  show "truthy_str (status p)
        \<longrightarrow> search_get (buildSearch num_str p) ''status'' = status p"
    by (cases "status p"; cases "attack_type p"; cases "min_severity p"; cases "q p";
        cases "ordering p")
       (simp_all add: buildSearch_eq search_get_def)
  show "truthy_str (attack_type p)
        \<longrightarrow> search_get (buildSearch num_str p) ''attack_type'' = attack_type p"
    by (cases "status p"; cases "attack_type p"; cases "min_severity p"; cases "q p";
        cases "ordering p")
       (simp_all add: buildSearch_eq search_get_def)
  show "truthy_str (q p) \<longrightarrow> search_get (buildSearch num_str p) ''q'' = q p"
    by (cases "status p"; cases "attack_type p"; cases "min_severity p"; cases "q p";
        cases "ordering p")
       (simp_all add: buildSearch_eq search_get_def)
  show "truthy_str (ordering p)
        \<longrightarrow> search_get (buildSearch num_str p) ''ordering'' = ordering p"
    by (cases "status p"; cases "attack_type p"; cases "min_severity p"; cases "q p";
        cases "ordering p")
       (simp_all add: buildSearch_eq search_get_def)
  show "buildQuery enc num_str None = []"
    by (simp add: buildQuery_def)
qed

text \<open>The theorem at the parameters of the incidents page with a status filter, an empty
  search box and a minimum severity of \<open>0\<close>, and at parameters with an attack type, a
  minimum severity of \<open>50\<close> and a search text: the query strings, and the pairs behind
  them.\<close>

theorem buildQuery_params_witness:
  "buildQuery (\<lambda>s. s) (\<lambda>n. ''0'')
      (Some \<lparr>status = Some ''open'', attack_type = None, min_severity = Val (Finite 0),
             q = Some [], ordering = Some ''-last_seen_at''\<rparr>)
     = ''status=open&ordering=-last_seen_at''
   \<and> buildQuery (\<lambda>s. s) (\<lambda>n. ''50'')
      (Some \<lparr>status = None, attack_type = Some ''ddos'', min_severity = Val (Finite 50),
             q = Some ''10.0.0.5'', ordering = None\<rparr>)
     = ''attack_type=ddos&min_severity=50&q=10.0.0.5''
   \<and> \<not> search_has
       (buildSearch (\<lambda>n. ''0'')
          \<lparr>status = Some ''open'', attack_type = None, min_severity = Val (Finite 0),
           q = Some [], ordering = Some ''-last_seen_at''\<rparr>) ''min_severity''
   \<and> search_get
       (buildSearch (\<lambda>n. ''0'')
          \<lparr>status = Some ''open'', attack_type = None, min_severity = Val (Finite 0),
           q = Some [], ordering = Some ''-last_seen_at''\<rparr>) ''status'' = Some ''open''
   \<and> search_get
       (buildSearch (\<lambda>n. ''0'')
          \<lparr>status = Some ''open'', attack_type = None, min_severity = Val (Finite 0),
           q = Some [], ordering = Some ''-last_seen_at''\<rparr>) ''ordering''
       = Some ''-last_seen_at''
   \<and> \<not> search_has
       (buildSearch (\<lambda>n. ''0'')
          \<lparr>status = Some ''open'', attack_type = None, min_severity = Val (Finite 0),
           q = Some [], ordering = Some ''-last_seen_at''\<rparr>) ''q''
   \<and> search_get
       (buildSearch (\<lambda>n. ''50'')
          \<lparr>status = None, attack_type = Some ''ddos'', min_severity = Val (Finite 50),
           q = Some ''10.0.0.5'', ordering = None\<rparr>) ''attack_type'' = Some ''ddos''
   \<and> search_get
       (buildSearch (\<lambda>n. ''50'')
          \<lparr>status = None, attack_type = Some ''ddos'', min_severity = Val (Finite 50),
           q = Some ''10.0.0.5'', ordering = None\<rparr>) ''q'' = Some ''10.0.0.5''"
  using
    buildQuery_params
      [where enc = "\<lambda>s. s" and num_str = "\<lambda>n. ''0''"
         and p = "\<lparr>status = Some ''open'', attack_type = None,
                   min_severity = Val (Finite 0), q = Some [],
                   ordering = Some ''-last_seen_at''\<rparr>"]
    buildQuery_params
      [where enc = "\<lambda>s. s" and num_str = "\<lambda>n. ''50''"
         and p = "\<lparr>status = None, attack_type = Some ''ddos'',
                   min_severity = Val (Finite 50), q = Some ''10.0.0.5'',
                   ordering = None\<rparr>"]
  by simp

subsection \<open>listIncidents\<close>

lemma results_of_truthy: "results_of data = Some x \<Longrightarrow> truthy data"
  by (cases data) simp_all

text \<open>
  Claim C9, as the code has it. For every response that \<open>fetch\<close> resolves to:
  when it is not ok, \<open>listIncidents\<close> throws an \<open>Error\<close> whose message is the body text,
  or \<open>Request failed with <status>\<close> when the body is empty; when it is ok and its body
  is not valid JSON, the \<open>SyntaxError\<close> of \<open>response.json()\<close> is thrown on; when it is
  ok and its body is JSON, the result is the body if that is an array, the body's
  \<open>results\<close> if that is an array, and the empty array in every other case. Whatever is
  returned is an array.
\<close>

theorem listIncidents_cases:
  "(\<not> ok r \<and> body_text r \<noteq> [] \<longrightarrow>
      listIncidents base (\<lambda>_. Inr r) enc num_str params = Inl (Error (body_text r)))
   \<and> (\<not> ok r \<and> body_text r = [] \<longrightarrow>
      listIncidents base (\<lambda>_. Inr r) enc num_str params
        = Inl (Error (''Request failed with '' @ nat_to_string (status_code r))))
   \<and> (ok r \<and> body_json r = None \<longrightarrow>
      listIncidents base (\<lambda>_. Inr r) enc num_str params = Inl SyntaxError)
   \<and> (\<forall>data. ok r \<and> body_json r = Some data \<longrightarrow>
        listIncidents base (\<lambda>_. Inr r) enc num_str params =
          Inr (if isArray data then data
               else case results_of data of
                      Some x \<Rightarrow> if isArray x then x else JArr []
                    | None \<Rightarrow> JArr []))
   \<and> (\<forall>v. listIncidents base (\<lambda>_. Inr r) enc num_str params = Inr v \<longrightarrow> isArray v)
   \<and> (\<forall>e. listIncidents base (\<lambda>_. Inr r) enc num_str params = Inl e
          \<longrightarrow> \<not> ok r \<or> body_json r = None)"
proof (intro conjI allI impI)
  show "listIncidents base (\<lambda>_. Inr r) enc num_str params = Inl (Error (body_text r))"
    if "\<not> ok r \<and> body_text r \<noteq> []"
    using that by (simp add: listIncidents_def parseJson_def Let_def)
  show "listIncidents base (\<lambda>_. Inr r) enc num_str params
        = Inl (Error (''Request failed with '' @ nat_to_string (status_code r)))"
    if "\<not> ok r \<and> body_text r = []"
    using that by (simp add: listIncidents_def parseJson_def Let_def)
  show "listIncidents base (\<lambda>_. Inr r) enc num_str params = Inl SyntaxError"
    if "ok r \<and> body_json r = None"
    using that by (simp add: listIncidents_def parseJson_def Let_def)
  show "listIncidents base (\<lambda>_. Inr r) enc num_str params =
          Inr (if isArray data then data
               else case results_of data of
                      Some x \<Rightarrow> if isArray x then x else JArr []
                    | None \<Rightarrow> JArr [])"
    if "ok r \<and> body_json r = Some data" for data
    using that
    by (auto simp: listIncidents_def parseJson_def Let_def results_of_truthy
             split: option.split)
  show "isArray v" if "listIncidents base (\<lambda>_. Inr r) enc num_str params = Inr v" for v
    using that
    by (auto simp: listIncidents_def parseJson_def Let_def split: option.splits if_splits)
  show "\<not> ok r \<or> body_json r = None"
    if "listIncidents base (\<lambda>_. Inr r) enc num_str params = Inl e" for e
    using that
    by (auto simp: listIncidents_def parseJson_def Let_def split: option.splits if_splits)
qed

text \<open>The theorem at an empty 503 response, at a 400 response with a message, at a 204
  response without a body, and at the paginated body \<open>{"count": 1, "results": ["a"]}\<close>.\<close>

theorem listIncidents_cases_witness:
  "listIncidents ''http://localhost:8000''
      (\<lambda>_. Inr \<lparr>ok = False, status_code = 503, body_text = [], body_json = None\<rparr>)
      (\<lambda>s. s) (\<lambda>n. ''1'') None
     = Inl (Error ''Request failed with 503'')
   \<and> listIncidents ''http://localhost:8000''
      (\<lambda>_. Inr \<lparr>ok = False, status_code = 400, body_text = ''bad ordering'',
                body_json = None\<rparr>)
      (\<lambda>s. s) (\<lambda>n. ''1'') None
     = Inl (Error ''bad ordering'')
   \<and> listIncidents ''http://localhost:8000''
      (\<lambda>_. Inr \<lparr>ok = True, status_code = 204, body_text = [], body_json = None\<rparr>)
      (\<lambda>s. s) (\<lambda>n. ''1'') None
     = Inl SyntaxError
   \<and> listIncidents ''http://localhost:8000''
      (\<lambda>_. Inr \<lparr>ok = True, status_code = 200,
                body_text = ''{\"count\": 1, \"results\": [\"a\"]}'',
                body_json = Some (JObj [(''count'', JNum (Finite 1)),
                                        (''results'', JArr [JStr ''a''])])\<rparr>)
      (\<lambda>s. s) (\<lambda>n. ''1'') None
     = Inr (JArr [JStr ''a''])"
  using
    listIncidents_cases
      [of "\<lparr>ok = False, status_code = 503, body_text = [], body_json = None\<rparr>"
          "''http://localhost:8000''" "\<lambda>s. s" "\<lambda>n. ''1''" None]
    listIncidents_cases
      [of "\<lparr>ok = False, status_code = 400, body_text = ''bad ordering'',
            body_json = None\<rparr>"
          "''http://localhost:8000''" "\<lambda>s. s" "\<lambda>n. ''1''" None]
    listIncidents_cases
      [of "\<lparr>ok = True, status_code = 204, body_text = [], body_json = None\<rparr>"
          "''http://localhost:8000''" "\<lambda>s. s" "\<lambda>n. ''1''" None]
    listIncidents_cases
      [of "\<lparr>ok = True, status_code = 200,
            body_text = ''{\"count\": 1, \"results\": [\"a\"]}'',
            body_json = Some (JObj [(''count'', JNum (Finite 1)),
                                    (''results'', JArr [JStr ''a''])])\<rparr>"
          "''http://localhost:8000''" "\<lambda>s. s" "\<lambda>n. ''1''" None]
  by (simp add: nat_to_string.simps)

text \<open>Against claim C9 as it was stated ("throws exactly on HTTP failure"): a 200
  response with an HTML body is ok, and \<open>listIncidents\<close> throws.\<close>

theorem listIncidents_counterexample:
  "ok \<lparr>ok = True, status_code = 200, body_text = ''<html></html>'', body_json = None\<rparr>
   \<and> listIncidents ''http://localhost:8000''
        (\<lambda>_. Inr \<lparr>ok = True, status_code = 200, body_text = ''<html></html>'',
                  body_json = None\<rparr>)
        (\<lambda>s. s) (\<lambda>n. ''1'') None
       = Inl SyntaxError"
  by (simp add: listIncidents_def parseJson_def Let_def)

section \<open>Properties of the firewall timestamp's year\<close>

text \<open>Two wall-clock times of one year differ by their places in that year.\<close>

lemma to_seconds_same_year:
  "year a = year b \<Longrightarrow>
   to_seconds a - to_seconds b =
     ((days_before_month (is_leap (year a)) (month a) + int (day a)
        - days_before_month (is_leap (year a)) (month b) - int (day b)) * 24
       + int (hour a) - int (hour b)) * 3600
     + (int (minute a) - int (minute b)) * 60 + int (second a) - int (second b)"
  by (simp add: to_seconds_def algebra_simps)

lemma dec31_after_jan1:
  assumes now: "month now = 1" "day now = 1" "hour now < 24" "minute now < 60"
      "second now < 60"
    and s: "month s = 12" "day s = 31" "hour s = 23" "minute s = 59" "second s = 59"
  shows "364 * 86400 \<le> to_seconds (with_year (year now) s) - to_seconds now"
proof -
  let ?inj = "with_year (year now) s"
  have "to_seconds ?inj - to_seconds now
        = ((days_before_month (is_leap (year now)) 12 + 31
             - days_before_month (is_leap (year now)) 1 - 1) * 24
            + 23 - int (hour now)) * 3600
          + (59 - int (minute now)) * 60 + 59 - int (second now)"
    using to_seconds_same_year[of ?inj now] now s by (simp add: with_year_def)
  moreover have "334 \<le> days_before_month (is_leap (year now)) 12"
    by (simp add: days_before_month_def)
  moreover have "days_before_month (is_leap (year now)) 1 = 0"
    by (simp add: days_before_month_def)
  ultimately show ?thesis
    using now by simp
qed

text \<open>
  Claim C6. The parser injects the current year into a firewall timestamp and keeps it
  unless the result lies more than the tolerance after "now", in which case the year is
  the previous one. A line stamped Dec 31 23:59:59 that is read at any time of a
  1 January resolves to the previous calendar year, for every tolerance below 364 days.
\<close>

theorem firewall_year_rollover:
  "(to_seconds (with_year (year now) s) \<le> to_seconds now + tolerance
      \<longrightarrow> resolve_year tolerance now s = with_year (year now) s)
   \<and> (to_seconds now + tolerance < to_seconds (with_year (year now) s)
      \<longrightarrow> resolve_year tolerance now s = with_year (year now - 1) s)
   \<and> (month now = 1 \<and> day now = 1 \<and> hour now < 24 \<and> minute now < 60 \<and> second now < 60
      \<and> month s = 12 \<and> day s = 31 \<and> hour s = 23 \<and> minute s = 59 \<and> second s = 59
      \<and> tolerance < 364 * 86400
      \<longrightarrow> year (resolve_year tolerance now s) = year now - 1)"
proof (intro conjI impI)
  show "resolve_year tolerance now s = with_year (year now) s"
    if "to_seconds (with_year (year now) s) \<le> to_seconds now + tolerance"
    using that by (simp add: resolve_year_def Let_def)
  show "resolve_year tolerance now s = with_year (year now - 1) s"
    if "to_seconds now + tolerance < to_seconds (with_year (year now) s)"
    using that by (simp add: resolve_year_def Let_def)
  show "year (resolve_year tolerance now s) = year now - 1"
    if h: "month now = 1 \<and> day now = 1 \<and> hour now < 24 \<and> minute now < 60 \<and> second now < 60
      \<and> month s = 12 \<and> day s = 31 \<and> hour s = 23 \<and> minute s = 59 \<and> second s = 59
      \<and> tolerance < 364 * 86400"
  proof -
    from h have "364 * 86400 \<le> to_seconds (with_year (year now) s) - to_seconds now"
      by (intro dec31_after_jan1) simp_all
    with h have "to_seconds now + tolerance < to_seconds (with_year (year now) s)"
      by linarith
    then show ?thesis
      by (simp add: resolve_year_def Let_def with_year_def)
  qed
qed

text \<open>The theorem with a tolerance of one day: a line stamped Dec 31 23:59:59 read on
  1 January 2026 at 00:00:05 is of 2025; a line stamped one second before "now" keeps the
  current year; a line stamped a day and a half after "now" is put into the previous
  year.\<close>

theorem firewall_year_rollover_witness:
  "year (resolve_year 86400
           \<lparr>month = 1, day = 1, hour = 0, minute = 0, second = 5, year = 2026\<rparr>
           \<lparr>month = 12, day = 31, hour = 23, minute = 59, second = 59\<rparr>) = 2025
   \<and> resolve_year 86400
        \<lparr>month = 11, day = 2, hour = 12, minute = 0, second = 0, year = 2026\<rparr>
        \<lparr>month = 11, day = 2, hour = 11, minute = 59, second = 59\<rparr>
       = \<lparr>month = 11, day = 2, hour = 11, minute = 59, second = 59, year = 2026\<rparr>
   \<and> resolve_year 86400
        \<lparr>month = 11, day = 2, hour = 12, minute = 0, second = 0, year = 2026\<rparr>
        \<lparr>month = 11, day = 4, hour = 0, minute = 0, second = 0\<rparr>
       = \<lparr>month = 11, day = 4, hour = 0, minute = 0, second = 0, year = 2025\<rparr>"
  using
    firewall_year_rollover
      [of "\<lparr>month = 1, day = 1, hour = 0, minute = 0, second = 5, year = 2026\<rparr>"
          "\<lparr>month = 12, day = 31, hour = 23, minute = 59, second = 59\<rparr>" 86400]
    firewall_year_rollover
      [of "\<lparr>month = 11, day = 2, hour = 12, minute = 0, second = 0, year = 2026\<rparr>"
          "\<lparr>month = 11, day = 2, hour = 11, minute = 59, second = 59\<rparr>" 86400]
    firewall_year_rollover
      [of "\<lparr>month = 11, day = 2, hour = 12, minute = 0, second = 0, year = 2026\<rparr>"
          "\<lparr>month = 11, day = 4, hour = 0, minute = 0, second = 0\<rparr>" 86400]
  by (simp add: to_seconds_def with_year_def days_before_year_def days_before_month_def
        is_leap_def)


end
